theory Spec2Isabelle
  imports Complex_Main
begin

section \<open>Python values, exceptions and operators\<close>

text \<open>
  The module \<^verbatim>\<open>physics.py\<close> is dynamically typed Python: every parameter of its functions
  is an arbitrary object, the placeholders of its unfinished parts are \<^verbatim>\<open>None\<close>, and
  each arithmetic operation may raise. The values that occur are numbers and \<^verbatim>\<open>None\<close>.
  Python's \<^verbatim>\<open>int\<close> and \<^verbatim>\<open>float\<close> are both modelled by exact real numbers, so
  rounding is not part of the model; \<^verbatim>\<open>/\<close> is Python 3's true division.

  The first two exceptions are the built-in ones the source can raise. The other five are the
  error taxonomy of the specification; they are part of the type so that properties about
  them can be stated, and no definition below produces them, as no line of the source does.
\<close>

datatype error =
    TypeError
  | ZeroDivisionError
  | InvalidParameters
  | InvalidPower
  | DegenerateNetwork
  | MissingSetpoint
  | MissingCapacity

datatype pyval = PNone | PNum real

abbreviation val :: "pyval \<Rightarrow> error + pyval" where
  "val v \<equiv> Inr v"

abbreviation num :: "real \<Rightarrow> error + pyval" where
  "num r \<equiv> Inr (PNum r)"

text \<open>
  A binary operator evaluates its left operand, then its right operand, then applies the
  operation; an exception of an operand propagates in that order. An operand that is
  \<^verbatim>\<open>None\<close> raises \<^verbatim>\<open>TypeError\<close>.
\<close>

fun binop :: "(real \<Rightarrow> real \<Rightarrow> error + pyval) \<Rightarrow> error + pyval \<Rightarrow> error + pyval \<Rightarrow> error + pyval" where
  "binop f (Inl e) y = Inl e"
| "binop f (Inr v) (Inl e) = Inl e"
| "binop f (Inr (PNum a)) (Inr (PNum b)) = f a b"
| "binop f (Inr v) (Inr w) = Inl TypeError"

definition py_add :: "error + pyval \<Rightarrow> error + pyval \<Rightarrow> error + pyval" where
  "py_add x y = binop (\<lambda>a b. Inr (PNum (a + b))) x y"

definition py_sub :: "error + pyval \<Rightarrow> error + pyval \<Rightarrow> error + pyval" where
  "py_sub x y = binop (\<lambda>a b. Inr (PNum (a - b))) x y"

definition py_mul :: "error + pyval \<Rightarrow> error + pyval \<Rightarrow> error + pyval" where
  "py_mul x y = binop (\<lambda>a b. Inr (PNum (a * b))) x y"

definition py_truediv :: "error + pyval \<Rightarrow> error + pyval \<Rightarrow> error + pyval" where
  "py_truediv x y = binop (\<lambda>a b. if b = 0 then Inl ZeroDivisionError else Inr (PNum (a / b))) x y"

text \<open>
  A call \<^verbatim>\<open>f(x)\<close> evaluates the callee, then the argument, then calls. Neither a number
  nor \<^verbatim>\<open>None\<close> is callable: the call raises \<^verbatim>\<open>TypeError\<close>.
\<close>

fun py_call :: "error + pyval \<Rightarrow> error + pyval \<Rightarrow> error + pyval" where
  "py_call (Inl e) y = Inl e"
| "py_call (Inr f) (Inl e) = Inl e"
| "py_call (Inr f) (Inr x) = Inl TypeError"

text \<open>
  Ordering comparisons (Python 3): between numbers they give a truth value, with
  \<^verbatim>\<open>None\<close> on either side they raise \<^verbatim>\<open>TypeError\<close>.
\<close>

fun cmpop :: "(real \<Rightarrow> real \<Rightarrow> bool) \<Rightarrow> error + pyval \<Rightarrow> error + pyval \<Rightarrow> error + bool" where
  "cmpop f (Inl e) y = Inl e"
| "cmpop f (Inr v) (Inl e) = Inl e"
| "cmpop f (Inr (PNum a)) (Inr (PNum b)) = Inr (f a b)"
| "cmpop f (Inr v) (Inr w) = Inl TypeError"

definition py_le :: "error + pyval \<Rightarrow> error + pyval \<Rightarrow> error + bool" where
  "py_le x y = cmpop (\<lambda>a b. a \<le> b) x y"

definition py_lt :: "error + pyval \<Rightarrow> error + pyval \<Rightarrow> error + bool" where
  "py_lt x y = cmpop (\<lambda>a b. a < b) x y"

definition py_ge :: "error + pyval \<Rightarrow> error + pyval \<Rightarrow> error + bool" where
  "py_ge x y = cmpop (\<lambda>a b. a \<ge> b) x y"

definition py_gt :: "error + pyval \<Rightarrow> error + pyval \<Rightarrow> error + bool" where
  "py_gt x y = cmpop (\<lambda>a b. a > b) x y"

text \<open>Sequencing of statements: the first exception ends the function.\<close>

definition and_then :: "error + 'a \<Rightarrow> ('a \<Rightarrow> error + 'b) \<Rightarrow> error + 'b" where
  "and_then m f = (case m of Inl e \<Rightarrow> Inl e | Inr x \<Rightarrow> f x)"

section \<open>The equations of ISO 13790 Annex C as the source writes them\<close>

text \<open>
  \<^verbatim>\<open>theta_m_t = (theta_m_prev((c_m/3600)-0.5*(h_tr_3+h_tr_em))) + phi_m_tot / ((c_m/3600)+0.5*(h_tr_3+h_tr_em))\<close>
  The source writes no operator between \<^verbatim>\<open>theta_m_prev\<close> and the parenthesis that follows
  it: the expression is a call of \<^verbatim>\<open>theta_m_prev\<close>.
\<close>

definition calc_theta_m_t :: "pyval \<Rightarrow> pyval \<Rightarrow> pyval \<Rightarrow> pyval \<Rightarrow> pyval \<Rightarrow> error + pyval" where
  "calc_theta_m_t theta_m_prev c_m h_tr_3 h_tr_em phi_m_tot =
     py_add
       (py_call (val theta_m_prev)
          (py_sub (py_truediv (val c_m) (num 3600))
                  (py_mul (num 0.5) (py_add (val h_tr_3) (val h_tr_em)))))
       (py_truediv (val phi_m_tot)
          (py_add (py_truediv (val c_m) (num 3600))
                  (py_mul (num 0.5) (py_add (val h_tr_3) (val h_tr_em)))))"

text \<open>
  \<^verbatim>\<open>phi_m_tot = phi_m + h_tr_em*theta_e + h_tr_3*(phi_st + h_tr_w*theta_e+h_tr_1*(((phi_ia+phi_hc_nd)/h_ve_adj)+theta_e))/h_tr_2\<close>
\<close>

definition calc_phi_m_tot ::
  "pyval \<Rightarrow> pyval \<Rightarrow> pyval \<Rightarrow> pyval \<Rightarrow> pyval \<Rightarrow> pyval \<Rightarrow> pyval \<Rightarrow> pyval \<Rightarrow> pyval \<Rightarrow> pyval \<Rightarrow> pyval
     \<Rightarrow> error + pyval" where
  "calc_phi_m_tot phi_m h_tr_em theta_e h_tr_3 phi_st h_tr_w h_tr_1 phi_ia phi_hc_nd h_ve_adj h_tr_2 =
     py_add
       (py_add (val phi_m) (py_mul (val h_tr_em) (val theta_e)))
       (py_truediv
          (py_mul (val h_tr_3)
             (py_add
                (py_add (val phi_st) (py_mul (val h_tr_w) (val theta_e)))
                (py_mul (val h_tr_1)
                   (py_add (py_truediv (py_add (val phi_ia) (val phi_hc_nd)) (val h_ve_adj))
                           (val theta_e)))))
          (val h_tr_2))"

text \<open>\<^verbatim>\<open>h_tr_1 = 1/(1/h_ve_adj + 1/h_tr_is)\<close>\<close>

definition calc_h_tr_1 :: "pyval \<Rightarrow> pyval \<Rightarrow> error + pyval" where
  "calc_h_tr_1 h_ve_adj h_tr_is =
     py_truediv (num 1) (py_add (py_truediv (num 1) (val h_ve_adj)) (py_truediv (num 1) (val h_tr_is)))"

text \<open>\<^verbatim>\<open>h_tr_2 = h_tr_1 + h_tr_w\<close>\<close>

definition calc_h_tr_2 :: "pyval \<Rightarrow> pyval \<Rightarrow> error + pyval" where
  "calc_h_tr_2 h_tr_1 h_tr_w = py_add (val h_tr_1) (val h_tr_w)"

text \<open>\<^verbatim>\<open>h_tr_3 = 1/(1/h_tr_2 + 1/h_tr_ms)\<close>\<close>

definition calc_h_tr_3 :: "pyval \<Rightarrow> pyval \<Rightarrow> error + pyval" where
  "calc_h_tr_3 h_tr_2 h_tr_ms =
     py_truediv (num 1) (py_add (py_truediv (num 1) (val h_tr_2)) (py_truediv (num 1) (val h_tr_ms)))"

text \<open>\<^verbatim>\<open>theta_m = (theta_m_t+theta_m_prev)/2\<close>\<close>

definition calc_theta_m :: "pyval \<Rightarrow> pyval \<Rightarrow> error + pyval" where
  "calc_theta_m theta_m_t theta_m_prev =
     py_truediv (py_add (val theta_m_t) (val theta_m_prev)) (num 2)"

text \<open>
  \<^verbatim>\<open>theta_s = (h_tr_ms*theta_m+phi_st+h_tr_w*theta_e+h_tr_1*(theta_e+(phi_ia+phi_hc_nd)/h_ve_adj)) / (h_tr_ms+h_tr_w+h_tr_1)\<close>
\<close>

definition calc_theta_s ::
  "pyval \<Rightarrow> pyval \<Rightarrow> pyval \<Rightarrow> pyval \<Rightarrow> pyval \<Rightarrow> pyval \<Rightarrow> pyval \<Rightarrow> pyval \<Rightarrow> pyval \<Rightarrow> error + pyval" where
  "calc_theta_s h_tr_ms theta_m phi_st h_tr_w theta_e h_tr_1 phi_ia phi_hc_nd h_ve_adj =
     py_truediv
       (py_add
          (py_add
             (py_add (py_mul (val h_tr_ms) (val theta_m)) (val phi_st))
             (py_mul (val h_tr_w) (val theta_e)))
          (py_mul (val h_tr_1)
             (py_add (val theta_e)
                     (py_truediv (py_add (val phi_ia) (val phi_hc_nd)) (val h_ve_adj)))))
       (py_add (py_add (val h_tr_ms) (val h_tr_w)) (val h_tr_1))"

text \<open>
  \<^verbatim>\<open>theta_air = (h_tr_is * theta_s + h_ve_adj * theta_e + phi_ia + phi_hc_nd) / (h_tr_is + h_ve_adj)\<close>
\<close>

definition calc_theta_air :: "pyval \<Rightarrow> pyval \<Rightarrow> pyval \<Rightarrow> pyval \<Rightarrow> pyval \<Rightarrow> pyval \<Rightarrow> error + pyval" where
  "calc_theta_air h_tr_is theta_s h_ve_adj theta_e phi_ia phi_hc_nd =
     py_truediv
       (py_add
          (py_add
             (py_add (py_mul (val h_tr_is) (val theta_s)) (py_mul (val h_ve_adj) (val theta_e)))
             (val phi_ia))
          (val phi_hc_nd))
       (py_add (val h_tr_is) (val h_ve_adj))"

text \<open>
  \<^verbatim>\<open>theta_op = 0.3 * theta_air + 0.7 * theta_s\<close>, in exact arithmetic as the other stages;
  \<open>calc_theta_op_binary64\<close> below reads the same line in double precision.
\<close>

definition calc_theta_op :: "pyval \<Rightarrow> pyval \<Rightarrow> error + pyval" where
  "calc_theta_op theta_air theta_s =
     py_add (py_mul (num 0.3) (val theta_air)) (py_mul (num 0.7) (val theta_s))"

text \<open>
  \<^verbatim>\<open>phi_hc_nd_un = phi_hc_nd_10*(theta_air_set - theta_air_0)/(theta_air_10 - theta_air_0)\<close>
\<close>

definition calc_phi_hc_nd_un :: "pyval \<Rightarrow> pyval \<Rightarrow> pyval \<Rightarrow> pyval \<Rightarrow> error + pyval" where
  "calc_phi_hc_nd_un phi_hc_nd_10 theta_air_set theta_air_0 theta_air_10 =
     py_truediv
       (py_mul (val phi_hc_nd_10) (py_sub (val theta_air_set) (val theta_air_0)))
       (py_sub (val theta_air_10) (val theta_air_0))"

section \<open>The RC-network solver\<close>

text \<open>
  The object \<^verbatim>\<open>building_thermal_prop\<close>: the solver reads these fourteen attributes of it,
  the derived conductances \<^verbatim>\<open>h_tr_1\<close>, \<^verbatim>\<open>h_tr_2\<close> and \<^verbatim>\<open>h_tr_3\<close> among them.
\<close>

record building_thermal_prop =
  phi_m :: pyval
  h_tr_em :: pyval
  theta_e :: pyval
  h_tr_3 :: pyval
  phi_st :: pyval
  h_tr_w :: pyval
  h_tr_1 :: pyval
  phi_ia :: pyval
  h_ve_adj :: pyval
  h_tr_2 :: pyval
  theta_m_prev :: pyval
  c_m :: pyval
  h_tr_ms :: pyval
  h_tr_is :: pyval

text \<open>
  The solver returns the tuple \<^verbatim>\<open>theta_m_t, theta_air, theta_op\<close>, or the exception of the
  first statement that raises.
\<close>

type_synonym temperatures = "pyval \<times> pyval \<times> pyval"

definition calc_temperatures_crank_nicholson :: "pyval \<Rightarrow> building_thermal_prop \<Rightarrow> error + temperatures" where
  "calc_temperatures_crank_nicholson phi_hc_nd building_thermal_prop =
     and_then
       (calc_phi_m_tot (phi_m building_thermal_prop) (h_tr_em building_thermal_prop)
          (theta_e building_thermal_prop) (h_tr_3 building_thermal_prop)
          (phi_st building_thermal_prop) (h_tr_w building_thermal_prop)
          (h_tr_1 building_thermal_prop) (phi_ia building_thermal_prop) phi_hc_nd
          (h_ve_adj building_thermal_prop) (h_tr_2 building_thermal_prop))
       (\<lambda>phi_m_tot.
     and_then
       (calc_theta_m_t (theta_m_prev building_thermal_prop) (c_m building_thermal_prop)
          (h_tr_3 building_thermal_prop) (h_tr_em building_thermal_prop) phi_m_tot)
       (\<lambda>theta_m_t.
     and_then (calc_theta_m theta_m_t (theta_m_prev building_thermal_prop))
       (\<lambda>theta_m.
     and_then
       (calc_theta_s (h_tr_ms building_thermal_prop) theta_m (phi_st building_thermal_prop)
          (h_tr_w building_thermal_prop) (theta_e building_thermal_prop)
          (h_tr_1 building_thermal_prop) (phi_ia building_thermal_prop) phi_hc_nd
          (h_ve_adj building_thermal_prop))
       (\<lambda>theta_s.
     and_then
       (calc_theta_air (h_tr_is building_thermal_prop) theta_s (h_ve_adj building_thermal_prop)
          (theta_e building_thermal_prop) (phi_ia building_thermal_prop) phi_hc_nd)
       (\<lambda>theta_air.
     and_then (calc_theta_op theta_air theta_s)
       (\<lambda>theta_op. Inr (theta_m_t, theta_air, theta_op)))))))"

section \<open>Demand detection and the capacity-limited system state\<close>

text \<open>
  The functions of this section call the solver. They are written over the solver they call,
  so that what follows from their own control flow is separate from what the solver does; the
  functions of the module are their instances at \<open>calc_temperatures_crank_nicholson\<close>.

  A run is the outcome of a call together with the number of solver evaluations it started.
\<close>

type_synonym solver = "pyval \<Rightarrow> building_thermal_prop \<Rightarrow> error + temperatures"

type_synonym 'a run = "(error + 'a) \<times> nat"

definition no_eval :: "error + 'a \<Rightarrow> 'a run" where
  "no_eval r = (r, 0)"

definition evaluate :: "solver \<Rightarrow> pyval \<Rightarrow> building_thermal_prop \<Rightarrow> temperatures run" where
  "evaluate solve phi_hc_nd building_thermal_prop = (solve phi_hc_nd building_thermal_prop, 1)"

definition run_then :: "'a run \<Rightarrow> ('a \<Rightarrow> 'b run) \<Rightarrow> 'b run" where
  "run_then m f =
     (case m of
        (Inl e, n) \<Rightarrow> (Inl e, n)
      | (Inr x, n) \<Rightarrow> (case f x of (r, k) \<Rightarrow> (r, n + k)))"

text \<open>
  \<open>has_heating_demand\<close> sets its set point to \<^verbatim>\<open>None\<close> (\<^verbatim>\<open># TODO get setpoints\<close>) and never
  reads its parameter \<^verbatim>\<open>setpoints\<close>. It returns \<^verbatim>\<open>False\<close>, \<^verbatim>\<open>True\<close>, or falls off its
  end, which returns \<^verbatim>\<open>None\<close>.
\<close>

definition has_heating_demand_with :: "solver \<Rightarrow> building_thermal_prop \<Rightarrow> 'sp \<Rightarrow> bool option run" where
  "has_heating_demand_with solve building_thermal_prop setpoints =
     (let theta_int_h_set = PNone;
          phi_hc_nd = PNum 0
      in run_then (evaluate solve phi_hc_nd building_thermal_prop) (\<lambda>temperatures.
         let theta_air = fst (snd temperatures)
         in run_then (no_eval (py_le (val theta_int_h_set) (val theta_air))) (\<lambda>reached.
            if reached then no_eval (Inr (Some False))
            else run_then (no_eval (py_lt (val theta_air) (val theta_int_h_set))) (\<lambda>below.
                 if below then no_eval (Inr (Some True)) else no_eval (Inr None)))))"

definition has_cooling_demand_with :: "solver \<Rightarrow> building_thermal_prop \<Rightarrow> 'sp \<Rightarrow> bool option run" where
  "has_cooling_demand_with solve building_thermal_prop setpoints =
     (let theta_int_c_set = PNone;
          phi_hc_nd = PNum 0
      in run_then (evaluate solve phi_hc_nd building_thermal_prop) (\<lambda>temperatures.
         let theta_air = fst (snd temperatures)
         in run_then (no_eval (py_ge (val theta_int_c_set) (val theta_air))) (\<lambda>reached.
            if reached then no_eval (Inr (Some False))
            else run_then (no_eval (py_gt (val theta_air) (val theta_int_c_set))) (\<lambda>above.
                 if above then no_eval (Inr (Some True)) else no_eval (Inr None)))))"

text \<open>
  \<open>calc_phi_hc_ac\<close> takes the building properties only. Its set point, floor area and both
  capacity limits are literals of the source (\<^verbatim>\<open>theta_int_set = 20\<close>, \<^verbatim>\<open>af = 100\<close>,
  \<^verbatim>\<open>phi_c_max = 100\<close>, \<^verbatim>\<open>phi_h_max = 100\<close>, each with a \<^verbatim>\<open>TODO\<close>). The chained comparison
  \<^verbatim>\<open>phi_c_max <= phi_hc_nd_un <= phi_h_max\<close> evaluates its second half only when the first
  holds. Its first branch also assigns \<^verbatim>\<open>theta_air_ac\<close>, which the final evaluation overwrites,
  and its last branch prints a message; standard output is not modelled.
  The call returns \<^verbatim>\<open>theta_m_t_ac, theta_air_ac, theta_op_ac, phi_hc_nd_ac\<close>.
\<close>

definition calc_phi_hc_ac_with :: "solver \<Rightarrow> building_thermal_prop \<Rightarrow> (pyval \<times> pyval \<times> pyval \<times> pyval) run" where
  "calc_phi_hc_ac_with solve building_thermal_prop =
     (let phi_hc_nd_0 = PNum 0
      in run_then (evaluate solve phi_hc_nd_0 building_thermal_prop) (\<lambda>temp_rc_0.
         let theta_air_0 = fst (snd temp_rc_0);
             theta_int_set = PNum 20;
             af = PNum 100;
             theta_air_set = theta_int_set
         in run_then (no_eval (py_mul (num 10) (val af))) (\<lambda>phi_hc_nd_10.
            run_then (evaluate solve phi_hc_nd_10 building_thermal_prop) (\<lambda>temp_rc_10.
            let theta_air_10 = fst (snd temp_rc_10)
            in run_then (no_eval (calc_phi_hc_nd_un phi_hc_nd_10 theta_air_set theta_air_0 theta_air_10))
                 (\<lambda>phi_hc_nd_un.
               let phi_c_max = PNum 100;
                   phi_h_max = PNum 100
               in run_then
                    (no_eval
                       (and_then (py_le (val phi_c_max) (val phi_hc_nd_un)) (\<lambda>above_min.
                        and_then (if above_min then py_le (val phi_hc_nd_un) (val phi_h_max) else Inr False)
                          (\<lambda>in_range.
                        if in_range then Inr phi_hc_nd_un
                        else and_then (py_gt (val phi_hc_nd_un) (val phi_h_max)) (\<lambda>over.
                             if over then Inr phi_h_max
                             else and_then (py_lt (val phi_hc_nd_un) (val phi_c_max)) (\<lambda>under.
                                  if under then Inr phi_c_max else Inr (PNum 0)))))))
                    (\<lambda>phi_hc_nd_ac.
                  run_then (evaluate solve phi_hc_nd_ac building_thermal_prop) (\<lambda>temp_ac.
                  no_eval (Inr (fst temp_ac, fst (snd temp_ac), snd (snd temp_ac), phi_hc_nd_ac)))))))))"

text \<open>The functions of the module: the solver they call is \<open>calc_temperatures_crank_nicholson\<close>.\<close>

definition has_heating_demand :: "building_thermal_prop \<Rightarrow> 'sp \<Rightarrow> bool option run" where
  "has_heating_demand = has_heating_demand_with calc_temperatures_crank_nicholson"

definition has_cooling_demand :: "building_thermal_prop \<Rightarrow> 'sp \<Rightarrow> bool option run" where
  "has_cooling_demand = has_cooling_demand_with calc_temperatures_crank_nicholson"

definition calc_phi_hc_ac :: "building_thermal_prop \<Rightarrow> (pyval \<times> pyval \<times> pyval \<times> pyval) run" where
  "calc_phi_hc_ac = calc_phi_hc_ac_with calc_temperatures_crank_nicholson"

text \<open>
  The text of \<^verbatim>\<open>procedure_1\<close> (from line 287 of the source on) is not embedded: two of its
  \<^verbatim>\<open>elif\<close> branches hold comments only, where Python expects an indented block, so the
  text defines no function.
\<close>

section \<open>A zone to evaluate the functions on\<close>

text \<open>
  A zone with mass at 20 degrees, 5 degrees outside, no gains, and conductances
  \<open>h_tr_em = 20\<close>, \<open>h_tr_w = 10\<close>, \<open>h_ve_adj = 15\<close>, \<open>h_tr_ms = 25\<close>, \<open>h_tr_is = 30\<close>;
  the derived conductances are the values of \<open>calc_h_tr_1\<close>, \<open>calc_h_tr_2\<close> and
  \<open>calc_h_tr_3\<close> on these.
\<close>

definition example_zone :: building_thermal_prop where
  "example_zone =
     \<lparr> phi_m = PNum 0, h_tr_em = PNum 20, theta_e = PNum 5, h_tr_3 = PNum (100 / 9),
       phi_st = PNum 0, h_tr_w = PNum 10, h_tr_1 = PNum 10, phi_ia = PNum 0,
       h_ve_adj = PNum 15, h_tr_2 = PNum 20, theta_m_prev = PNum 20, c_m = PNum 18000000,
       h_tr_ms = PNum 25, h_tr_is = PNum 30 \<rparr>"

text \<open>
  The same zone at rest: mass and outside air at 0 degrees, no gains. Every temperature of its
  free-floating step is 0, whether equation (C.4) is read with the product the source leaves
  out or as the standard writes it.
\<close>

definition resting_zone :: building_thermal_prop where
  "resting_zone = example_zone\<lparr>theta_e := PNum 0, theta_m_prev := PNum 0\<rparr>"

section \<open>The operative temperature in double precision\<close>










section \<open>Outcomes with built-in exceptions only\<close>

text \<open>
  An outcome that is a value or one of Python's built-in exceptions, the only ones the
  source can raise.
\<close>

definition builtin_only :: "error + 'a \<Rightarrow> bool" where
  "builtin_only r = (case r of Inl e \<Rightarrow> e = TypeError \<or> e = ZeroDivisionError | Inr x \<Rightarrow> True)"

section \<open>Sequencing and the exceptions of the operators\<close>

lemma and_then_simps:
  "and_then (Inl e) f = Inl e"
  "and_then (Inr x) f = f x"
  by (simp_all add: and_then_def)

lemma run_then_simps:
  "run_then (Inl e, n) f = (Inl e, n)"
  "run_then (Inr x, n) f = (fst (f x), n + snd (f x))"
  by (simp_all add: run_then_def split: prod.splits)

lemma builtin_only_Inr: "builtin_only (Inr x)"
  by (simp add: builtin_only_def)

lemma builtin_only_binop:
  assumes "builtin_only x" and "builtin_only y" and "\<And>a b. builtin_only (f a b)"
  shows "builtin_only (binop f x y)"
proof (cases x)
  case (Inl e)
  with assms(1) show ?thesis by simp
next
  case x: (Inr v)
  show ?thesis
  proof (cases y)
    case (Inl e)
    with x assms(2) show ?thesis by simp
  next
    case (Inr w)
    with x assms(3) show ?thesis
      by (cases v; cases w) (simp_all add: builtin_only_def)
  qed
qed

lemma builtin_only_ops:
  assumes "builtin_only x" and "builtin_only y"
  shows "builtin_only (py_add x y)" and "builtin_only (py_sub x y)"
    and "builtin_only (py_mul x y)" and "builtin_only (py_truediv x y)"
  unfolding py_add_def py_sub_def py_mul_def py_truediv_def
  by (rule builtin_only_binop [OF assms], simp add: builtin_only_def)+

section \<open>The solver never returns\<close>

text \<open>
  Whatever its arguments are, \<open>calc_theta_m_t\<close> raises \<^verbatim>\<open>TypeError\<close>: its argument
  expression raises it when an operand is \<^verbatim>\<open>None\<close>, and otherwise the call of
  \<^verbatim>\<open>theta_m_prev\<close> does.
\<close>

lemma calc_theta_m_t_raises:
  "calc_theta_m_t theta_m_prev' c_m' h_tr_3' h_tr_em' phi_m_tot' = Inl TypeError"
  unfolding calc_theta_m_t_def py_add_def py_sub_def py_mul_def py_truediv_def
  by (cases c_m'; cases h_tr_3'; cases h_tr_em') simp_all

text \<open>
  So the solver ends at its first or at its second statement: with the exception of
  \<open>calc_phi_m_tot\<close>, or with the \<^verbatim>\<open>TypeError\<close> of \<open>calc_theta_m_t\<close>.
\<close>

lemma solver_outcome:
  "calc_temperatures_crank_nicholson phi_hc_nd p =
     (case calc_phi_m_tot (phi_m p) (h_tr_em p) (theta_e p) (h_tr_3 p) (phi_st p) (h_tr_w p)
             (h_tr_1 p) (phi_ia p) phi_hc_nd (h_ve_adj p) (h_tr_2 p) of
        Inl e \<Rightarrow> Inl e
      | Inr phi_m_tot \<Rightarrow> Inl TypeError)"
  unfolding calc_temperatures_crank_nicholson_def
  by (simp add: and_then_simps calc_theta_m_t_raises split: sum.splits)

lemma solver_never_returns: "calc_temperatures_crank_nicholson phi_hc_nd p \<noteq> Inr t"
  by (simp add: solver_outcome split: sum.splits)

lemma builtin_only_calc_phi_m_tot:
  "builtin_only (calc_phi_m_tot a b c d e f g h i j k)"
  unfolding calc_phi_m_tot_def
  by (intro builtin_only_ops builtin_only_Inr)

lemma builtin_only_solver: "builtin_only (calc_temperatures_crank_nicholson phi_hc_nd p)"
  using builtin_only_calc_phi_m_tot
    [of "phi_m p" "h_tr_em p" "theta_e p" "h_tr_3 p" "phi_st p" "h_tr_w p" "h_tr_1 p" "phi_ia p"
        phi_hc_nd "h_ve_adj p" "h_tr_2 p"]
  by (simp add: solver_outcome builtin_only_def split: sum.splits)

lemma solver_raises:
  "\<exists>e. calc_temperatures_crank_nicholson phi_hc_nd p = Inl e \<and> (e = TypeError \<or> e = ZeroDivisionError)"
  using builtin_only_solver [of phi_hc_nd p] solver_never_returns [of phi_hc_nd p]
  by (cases "calc_temperatures_crank_nicholson phi_hc_nd p") (auto simp: builtin_only_def)

text \<open>
  Every function that starts with a solver evaluation ends with that evaluation's exception.
\<close>

lemma callers_raise:
  "\<exists>e. has_heating_demand p sp = (Inl e, 1) \<and> (e = TypeError \<or> e = ZeroDivisionError)"
  "\<exists>e. has_cooling_demand p sp = (Inl e, 1) \<and> (e = TypeError \<or> e = ZeroDivisionError)"
  "\<exists>e. calc_phi_hc_ac p = (Inl e, 1) \<and> (e = TypeError \<or> e = ZeroDivisionError)"
  using solver_raises [of "PNum 0" p]
  unfolding has_heating_demand_def has_heating_demand_with_def has_cooling_demand_def
    has_cooling_demand_with_def calc_phi_hc_ac_def calc_phi_hc_ac_with_def
  by (auto simp: Let_def evaluate_def run_then_simps)

section \<open>The callers over a solver that returns\<close>

text \<open>
  What the callers do by their own control flow, whatever solver they are given. Each demand
  predicate compares the air temperature with its set point \<^verbatim>\<open>None\<close>, which raises in
  Python 3.
\<close>

lemma demand_check_compares_None:
  "has_heating_demand_with (\<lambda>phi_hc_nd p. Inr (theta_m_t, PNum theta_air, theta_op)) props sp
     = (Inl TypeError, 1)"
  "has_cooling_demand_with (\<lambda>phi_hc_nd p. Inr (theta_m_t, PNum theta_air, theta_op)) props sp
     = (Inl TypeError, 1)"
  unfolding has_heating_demand_with_def has_cooling_demand_with_def
  by (simp_all add: Let_def evaluate_def no_eval_def run_then_simps py_le_def py_ge_def)

text \<open>
  With both limits the literal 100, every branch of the capacity chain of \<open>calc_phi_hc_ac\<close>
  ends at 100: a call that returns reports a delivered power of 100.
\<close>

lemma capacity_chain_literal:
  assumes "and_then (py_le (num 100) (val phi_hc_nd_un)) (\<lambda>above_min.
           and_then (if above_min then py_le (val phi_hc_nd_un) (num 100) else Inr False) (\<lambda>in_range.
           if in_range then Inr phi_hc_nd_un
           else and_then (py_gt (val phi_hc_nd_un) (num 100)) (\<lambda>over.
                if over then Inr (PNum 100)
                else and_then (py_lt (val phi_hc_nd_un) (num 100)) (\<lambda>under.
                     if under then Inr (PNum 100) else Inr (PNum 0))))) = Inr phi_hc_nd_ac"
  shows "phi_hc_nd_ac = PNum 100"
  using assms
  by (cases phi_hc_nd_un) (auto simp: and_then_def py_le_def py_gt_def py_lt_def split: if_splits)

lemma calc_phi_hc_ac_with_delivers_literal:
  assumes "fst (calc_phi_hc_ac_with solve p) = Inr (theta_m_t_ac, theta_air_ac, theta_op_ac, phi_hc_nd_ac)"
  shows "phi_hc_nd_ac = PNum 100"
  using assms unfolding calc_phi_hc_ac_with_def
  by (auto simp: Let_def evaluate_def no_eval_def run_then_def py_mul_def
      split: sum.splits prod.splits dest!: capacity_chain_literal)

text \<open>
  For instance with a solver whose air temperature is the injected power: the unrestricted
  power is \<open>1000 * (20 - 0) / (1000 - 0) = 20\<close>, and 100 is delivered.
\<close>

lemma calc_phi_hc_ac_with_identity_solver:
  "calc_phi_hc_ac_with (\<lambda>phi_hc_nd p. Inr (PNum 0, phi_hc_nd, PNum 0)) props
    = (Inr (PNum 0, PNum 100, PNum 0, PNum 100), 3)"
  unfolding calc_phi_hc_ac_with_def
  by (simp add: Let_def evaluate_def no_eval_def run_then_simps and_then_simps py_mul_def
      calc_phi_hc_nd_un_def py_sub_def py_truediv_def py_le_def py_gt_def py_lt_def)

text \<open>The number of solver evaluations a call starts, whatever the solver returns.\<close>

lemma has_heating_demand_with_count: "snd (has_heating_demand_with solve p sp) \<le> 1"
  unfolding has_heating_demand_with_def
  by (auto simp: Let_def evaluate_def no_eval_def run_then_def split: sum.splits prod.splits)

lemma has_cooling_demand_with_count: "snd (has_cooling_demand_with solve p sp) \<le> 1"
  unfolding has_cooling_demand_with_def
  by (auto simp: Let_def evaluate_def no_eval_def run_then_def split: sum.splits prod.splits)

lemma calc_phi_hc_ac_with_count: "snd (calc_phi_hc_ac_with solve p) \<le> 3"
  unfolding calc_phi_hc_ac_with_def
  by (auto simp: Let_def evaluate_def no_eval_def run_then_def split: sum.splits prod.splits)

section \<open>The stages on numbers\<close>

text \<open>
  On numbers, in exact arithmetic, every stage but \<open>calc_theta_m_t\<close> computes its formula, or raises
  \<^verbatim>\<open>ZeroDivisionError\<close> where a divisor is zero; the divisions are taken in the order in
  which Python evaluates them.
\<close>

lemma calc_phi_m_tot_numbers:
  "calc_phi_m_tot (PNum phi_m') (PNum h_tr_em') (PNum theta_e') (PNum h_tr_3') (PNum phi_st')
       (PNum h_tr_w') (PNum h_tr_1') (PNum phi_ia') (PNum phi_hc_nd) (PNum h_ve_adj') (PNum h_tr_2')
   = (if h_ve_adj' = 0 \<or> h_tr_2' = 0 then Inl ZeroDivisionError
      else Inr (PNum (phi_m' + h_tr_em' * theta_e'
             + h_tr_3' * (phi_st' + h_tr_w' * theta_e'
                          + h_tr_1' * ((phi_ia' + phi_hc_nd) / h_ve_adj' + theta_e')) / h_tr_2')))"
  unfolding calc_phi_m_tot_def py_add_def py_mul_def py_truediv_def
  by simp

lemma calc_theta_m_numbers:
  "calc_theta_m (PNum theta_m_t) (PNum theta_m_prev') = Inr (PNum ((theta_m_t + theta_m_prev') / 2))"
  unfolding calc_theta_m_def py_add_def py_truediv_def
  by simp

lemma calc_theta_s_numbers:
  "calc_theta_s (PNum h_tr_ms') (PNum theta_m) (PNum phi_st') (PNum h_tr_w') (PNum theta_e')
       (PNum h_tr_1') (PNum phi_ia') (PNum phi_hc_nd) (PNum h_ve_adj')
   = (if h_ve_adj' = 0 \<or> h_tr_ms' + h_tr_w' + h_tr_1' = 0 then Inl ZeroDivisionError
      else Inr (PNum ((h_tr_ms' * theta_m + phi_st' + h_tr_w' * theta_e'
                       + h_tr_1' * (theta_e' + (phi_ia' + phi_hc_nd) / h_ve_adj'))
                      / (h_tr_ms' + h_tr_w' + h_tr_1'))))"
  unfolding calc_theta_s_def py_add_def py_mul_def py_truediv_def
  by simp

lemma calc_theta_air_numbers:
  "calc_theta_air (PNum h_tr_is') (PNum theta_s) (PNum h_ve_adj') (PNum theta_e') (PNum phi_ia')
       (PNum phi_hc_nd)
   = (if h_tr_is' + h_ve_adj' = 0 then Inl ZeroDivisionError
      else Inr (PNum ((h_tr_is' * theta_s + h_ve_adj' * theta_e' + phi_ia' + phi_hc_nd)
                      / (h_tr_is' + h_ve_adj'))))"
  unfolding calc_theta_air_def py_add_def py_mul_def py_truediv_def
  by simp

lemma calc_theta_op_numbers:
  "calc_theta_op (PNum theta_air) (PNum theta_s) = Inr (PNum (0.3 * theta_air + 0.7 * theta_s))"
  unfolding calc_theta_op_def py_add_def py_mul_def
  by simp

lemma calc_phi_hc_nd_un_numbers:
  "calc_phi_hc_nd_un (PNum phi_hc_nd_10) (PNum theta_air_set) (PNum theta_air_0) (PNum theta_air_10)
   = (if theta_air_10 = theta_air_0 then Inl ZeroDivisionError
      else Inr (PNum (phi_hc_nd_10 * (theta_air_set - theta_air_0) / (theta_air_10 - theta_air_0))))"
  unfolding calc_phi_hc_nd_un_def py_sub_def py_mul_def py_truediv_def
  by simp

lemma interpolation_divides:
  "calc_phi_hc_nd_un (PNum phi_hc_nd_10) (PNum theta_air_set) (PNum theta_air_0) (PNum theta_air_0)
   = Inl ZeroDivisionError"
  by (simp add: calc_phi_hc_nd_un_numbers)

section \<open>The example zone\<close>

lemma example_derived:
  "calc_h_tr_1 (PNum 15) (PNum 30) = Inr (PNum 10)"
  "calc_h_tr_2 (PNum 10) (PNum 10) = Inr (PNum 20)"
  "calc_h_tr_3 (PNum 20) (PNum 25) = Inr (PNum (100 / 9))"
  unfolding calc_h_tr_1_def calc_h_tr_2_def calc_h_tr_3_def py_add_def py_truediv_def
  by simp_all

lemma example_solver:
  "calc_temperatures_crank_nicholson (PNum phi) (example_zone\<lparr>theta_e := PNum theta_e'\<rparr>) = Inl TypeError"
  by (simp add: solver_outcome example_zone_def calc_phi_m_tot_numbers)

lemma resting_solver:
  "calc_temperatures_crank_nicholson (PNum phi) resting_zone = Inl TypeError"
  by (simp add: solver_outcome resting_zone_def example_zone_def calc_phi_m_tot_numbers)

lemma example_calc_phi_hc_ac:
  "calc_phi_hc_ac (example_zone\<lparr>theta_e := PNum theta_e'\<rparr>) = (Inl TypeError, 1)"
  unfolding calc_phi_hc_ac_def calc_phi_hc_ac_with_def
  by (simp add: Let_def evaluate_def run_then_simps example_solver)

section \<open>Rounding to double precision\<close>









lemma quantum_pos: "0 < (2::real) powi k"
  by simp















section \<open>The claims\<close>

text \<open>
  Claim C1: the new mass temperature is \<open>theta_m_prev\<close> multiplied by
  \<open>c_m/3600 - 0.5 * (h_tr_3 + h_tr_em)\<close>, plus \<open>phi_m_tot\<close> divided by
  \<open>c_m/3600 + 0.5 * (h_tr_3 + h_tr_em)\<close>, the product being a multiplication and not a
  function application. The source applies \<open>theta_m_prev\<close> as a function: on the example
  zone, where the product would be \<open>20 * (5000 - 140/9)\<close>, \<open>calc_theta_m_t\<close> raises
  \<^verbatim>\<open>TypeError\<close> and so does the solver; no mass temperature is computed.
\<close>

theorem calc_theta_m_t_applies_theta_m_prev:
  "calc_theta_m_t (PNum 20) (PNum 18000000) (PNum (100 / 9)) (PNum 20) (PNum (1400 / 9)) = Inl TypeError
   \<and> calc_temperatures_crank_nicholson (PNum 0) example_zone = Inl TypeError"
  using example_solver [of 0 5]
  by (simp add: calc_theta_m_t_raises example_zone_def)

text \<open>
  Claim C2: when the free-floating air temperature lies between the two set points, the
  resolver returns the power 0 with the result of the single free-floating evaluation.
  In the zone at rest that temperature would be 0, between the set points -5 and 5: there is
  no demand. Both demand predicates raise \<^verbatim>\<open>TypeError\<close> in their solver evaluation, and
  so does the free-floating evaluation itself: no demand is detected and no result returned.
\<close>

theorem no_demand_detection_raises_at_rest:
  "has_heating_demand resting_zone (PNum (- 5), PNum 5) = (Inl TypeError, 1)
   \<and> has_cooling_demand resting_zone (PNum (- 5), PNum 5) = (Inl TypeError, 1)
   \<and> calc_temperatures_crank_nicholson (PNum 0) resting_zone = Inl TypeError"
  using resting_solver [of 0]
  unfolding has_heating_demand_def has_heating_demand_with_def has_cooling_demand_def
    has_cooling_demand_with_def
  by (simp add: Let_def evaluate_def run_then_simps)

text \<open>
  Claim C3: when the unrestricted power lies within the capacity limits, the resolver delivers
  it, evaluates the solver once more at that power, and the air temperature is the set point.
  On the example zone \<open>calc_phi_hc_ac\<close> raises \<^verbatim>\<open>TypeError\<close> at its first solver
  evaluation: no power is interpolated and no air temperature returned.
\<close>

theorem calc_phi_hc_ac_raises_on_example:
  "calc_phi_hc_ac example_zone = (Inl TypeError, 1)"
  using example_calc_phi_hc_ac [of 5]
  by (simp add: example_zone_def)

text \<open>
  Claim C4: an unrestricted power above \<open>phi_h_max\<close> is delivered as \<open>phi_h_max\<close>, one below
  \<open>phi_c_max\<close> as \<open>phi_c_max\<close>. On the example zone in frost (20 degrees below zero
  outside) and in heat (40 degrees outside) \<open>calc_phi_hc_ac\<close> raises \<^verbatim>\<open>TypeError\<close> at its
  first solver evaluation: no power is delivered.
\<close>

theorem calc_phi_hc_ac_raises_in_frost_and_heat:
  "calc_phi_hc_ac (example_zone\<lparr>theta_e := PNum (- 20)\<rparr>) = (Inl TypeError, 1)
   \<and> calc_phi_hc_ac (example_zone\<lparr>theta_e := PNum 40\<rparr>) = (Inl TypeError, 1)"
  by (simp add: example_calc_phi_hc_ac)

text \<open>
  Claim C5: the air temperature the solver returns is an affine function of the injected
  power, so the slopes between any two pairs of three powers agree. On the example zone the
  solver raises \<^verbatim>\<open>TypeError\<close> at the powers 0, 1000 and 2000: it returns no air
  temperature to take a slope of.
\<close>

theorem solver_raises_at_three_powers:
  "calc_temperatures_crank_nicholson (PNum 0) example_zone = Inl TypeError
   \<and> calc_temperatures_crank_nicholson (PNum 1000) example_zone = Inl TypeError
   \<and> calc_temperatures_crank_nicholson (PNum 2000) example_zone = Inl TypeError"
  using example_solver [of _ 5]
  by (simp add: example_zone_def)

text \<open>
  Claim C6, as stated: when the probe and the free-floating air temperature are equal, the
  resolver fails with \<open>DegenerateNetwork\<close> instead of dividing. It does not: with both
  temperatures 10 the interpolation raises \<^verbatim>\<open>ZeroDivisionError\<close>.
\<close>

theorem interpolation_example_not_degenerate_network:
  "calc_phi_hc_nd_un (PNum 1000) (PNum 20) (PNum 10) (PNum 10) = Inl ZeroDivisionError
   \<and> calc_phi_hc_nd_un (PNum 1000) (PNum 20) (PNum 10) (PNum 10) \<noteq> Inl DegenerateNetwork"
  by (simp add: interpolation_divides)

text \<open>
  Claim C6, amended: when the probe and the free-floating air temperature are equal numbers,
  the interpolation is carried out and its division raises \<^verbatim>\<open>ZeroDivisionError\<close>; and
  \<open>calc_phi_hc_ac\<close> over any solver whose air temperature does not depend on the power
  ends with that exception, after its second evaluation.
\<close>

theorem interpolation_divides_by_zero:
  "calc_phi_hc_nd_un (PNum phi_hc_nd_10) (PNum theta_air_set) (PNum theta_air_0) (PNum theta_air_0)
     = Inl ZeroDivisionError
   \<and> calc_phi_hc_ac_with (\<lambda>phi_hc_nd p. Inr (theta_m_t, PNum theta_air, theta_op)) props
     = (Inl ZeroDivisionError, 2)"
  unfolding calc_phi_hc_ac_with_def
  by (simp add: Let_def evaluate_def no_eval_def run_then_simps interpolation_divides py_mul_def)

text \<open>
  Claim C7, as stated: the solver fails with \<open>InvalidParameters\<close> whenever a conductance or
  the capacitance is not positive. It does not: on the example zone with \<open>h_ve_adj = 0\<close> it
  raises \<^verbatim>\<open>ZeroDivisionError\<close>.
\<close>

theorem solver_example_not_invalid_parameters:
  "calc_temperatures_crank_nicholson (PNum 0) (example_zone\<lparr>h_ve_adj := PNum 0\<rparr>) = Inl ZeroDivisionError
   \<and> calc_temperatures_crank_nicholson (PNum 0) (example_zone\<lparr>h_ve_adj := PNum 0\<rparr>) \<noteq> Inl InvalidParameters"
  by (simp add: solver_outcome example_zone_def calc_phi_m_tot_numbers)

text \<open>
  Claim C7, amended: the solver validates nothing. It never fails with \<open>InvalidParameters\<close>
  or \<open>InvalidPower\<close>; its first stage \<open>calc_phi_m_tot\<close>, given numbers, raises
  \<^verbatim>\<open>ZeroDivisionError\<close> when \<open>h_ve_adj\<close> or \<open>h_tr_2\<close> is zero and otherwise returns the
  value of its formula, for negative conductances as for positive ones.
\<close>

theorem solver_validates_nothing:
  "calc_temperatures_crank_nicholson phi p \<noteq> Inl InvalidParameters
   \<and> calc_temperatures_crank_nicholson phi p \<noteq> Inl InvalidPower
   \<and> calc_phi_m_tot (PNum phi_m') (PNum h_tr_em') (PNum theta_e') (PNum h_tr_3') (PNum phi_st')
         (PNum h_tr_w') (PNum h_tr_1') (PNum phi_ia') (PNum phi_hc_nd) (PNum h_ve_adj') (PNum h_tr_2')
     = (if h_ve_adj' = 0 \<or> h_tr_2' = 0 then Inl ZeroDivisionError
        else Inr (PNum (phi_m' + h_tr_em' * theta_e'
               + h_tr_3' * (phi_st' + h_tr_w' * theta_e'
                            + h_tr_1' * ((phi_ia' + phi_hc_nd) / h_ve_adj' + theta_e')) / h_tr_2')))"
  using builtin_only_solver [of phi p]
  by (auto simp: calc_phi_m_tot_numbers builtin_only_def split: sum.splits)

text \<open>
  Claim C8: the solver is evaluated exactly once without demand and exactly three times with
  demand (at zero power, at the probe power, at the clamped power). The example zone has
  heating demand. \<open>calc_phi_hc_ac\<close> has the three evaluations in sequence and makes them
  over a solver that returns; over the solver of the module it starts one, which raises.
\<close>

theorem calc_phi_hc_ac_evaluates_once:
  "snd (calc_phi_hc_ac example_zone) = 1
   \<and> snd (calc_phi_hc_ac_with (\<lambda>phi_hc_nd p. Inr (PNum 0, phi_hc_nd, PNum 0)) example_zone) = 3"
  using example_calc_phi_hc_ac [of 5]
  by (simp add: example_zone_def calc_phi_hc_ac_with_identity_solver)

text \<open>
  Claim C9: set points and capacities come from the caller only, no default is assumed, and
  an absent set point surfaces as \<open>MissingSetpoint\<close>. The demand check does not read the set
  points it is given: with the pair (20, 26) supplied and an air temperature of 18 it compares
  with \<^verbatim>\<open>None\<close> and raises \<^verbatim>\<open>TypeError\<close>, and its outcome is the same for any two
  values of \<^verbatim>\<open>setpoints\<close>. \<open>calc_phi_hc_ac\<close> is given no set point and no capacity and
  uses its literals: over a solver whose air temperature is the injected power it steers to
  20 and delivers 100.
\<close>

theorem setpoints_not_read_and_literals_used:
  "has_heating_demand_with (\<lambda>phi_hc_nd p. Inr (PNum 0, PNum 18, PNum 0)) example_zone (PNum 20, PNum 26)
     = (Inl TypeError, 1)
   \<and> has_heating_demand_with solve p sp = has_heating_demand_with solve p sp'
   \<and> has_cooling_demand_with solve p sp = has_cooling_demand_with solve p sp'
   \<and> calc_phi_hc_ac_with (\<lambda>phi_hc_nd p. Inr (PNum 0, phi_hc_nd, PNum 0)) example_zone
     = (Inr (PNum 0, PNum 100, PNum 0, PNum 100), 3)"
  by (simp add: demand_check_compares_None calc_phi_hc_ac_with_identity_solver
      has_heating_demand_with_def has_cooling_demand_with_def)




end
